theory Spec2Isabelle
  imports Complex_Main
begin

section \<open>Python values used by the handlers of \<^verbatim>\<open>main.py\<close>\<close>

subsection \<open>Strings\<close>

text \<open>
  A Python \<^verbatim>\<open>str\<close> is a sequence of Unicode code points, and \<^verbatim>\<open>len\<close> counts code
  points. A string is therefore a list of code point numbers; \<open>S\<close> turns an ASCII literal
  of the source into that representation. The non-ASCII symbols of the source's literals
  are written as their code points: U+2705 (check mark), U+274C (cross mark) and
  U+26A0 U+FE0F (warning sign with its variation selector).
\<close>

type_synonym pystr = "nat list"

definition S :: "string \<Rightarrow> pystr" where
  "S s = map of_char s"

definition check_mark :: pystr where
  "check_mark = [9989]"

definition cross_mark :: pystr where
  "cross_mark = [10060]"

definition warning_sign :: pystr where
  "warning_sign = [9888, 65039]"

text \<open>
  \<^verbatim>\<open>str.isspace\<close> for one code point: the white space set of CPython
  (\<^verbatim>\<open>_PyUnicode_IsWhitespace\<close>): U+0009..U+000D, U+001C..U+0020, U+0085, U+00A0, U+1680,
  U+2000..U+200A, U+2028, U+2029, U+202F, U+205F, U+3000.
\<close>

definition isspace :: "nat \<Rightarrow> bool" where
  "isspace c =
     ((9 \<le> c \<and> c \<le> 13) \<or> (28 \<le> c \<and> c \<le> 32) \<or> c = 133 \<or> c = 160 \<or> c = 5760 \<or>
      (8192 \<le> c \<and> c \<le> 8202) \<or> c = 8232 \<or> c = 8233 \<or> c = 8239 \<or> c = 8287 \<or> c = 12288)"

text \<open>\<^verbatim>\<open>s.strip()\<close>: the white space at both ends is removed.\<close>

definition strip :: "pystr \<Rightarrow> pystr" where
  "strip s = rev (dropWhile isspace (rev (dropWhile isspace s)))"

text \<open>
  \<^verbatim>\<open>s.lower()\<close>. On a string of ASCII code points it maps \<^verbatim>\<open>A\<close>..\<^verbatim>\<open>Z\<close> to
  \<^verbatim>\<open>a\<close>..\<^verbatim>\<open>z\<close> and leaves every other code point alone. On a string with a code point
  beyond ASCII the result is read from the Unicode character database of the interpreter,
  which is no part of this program: that lowercasing is the parameter \<open>ulower\<close>, and
  every statement below holds for each value of it.
\<close>

definition ascii_lower :: "nat \<Rightarrow> nat" where
  "ascii_lower c = (if 65 \<le> c \<and> c \<le> 90 then c + 32 else c)"

definition lower :: "(pystr \<Rightarrow> pystr) \<Rightarrow> pystr \<Rightarrow> pystr" where
  "lower ulower s = (if list_all (\<lambda>c. c < 128) s then map ascii_lower s else ulower s)"

section \<open>The clock\<close>

text \<open>
  \<^verbatim>\<open>datetime.utcnow()\<close> reads the clock and returns a naive \<^verbatim>\<open>datetime\<close>; the handlers
  take each reading as an argument. \<^verbatim>\<open>isoformat()\<close> of a naive value prints
  \<^verbatim>\<open>YYYY-MM-DDTHH:MM:SS\<close>, followed by \<^verbatim>\<open>.ffffff\<close> when the microsecond is not zero.
\<close>

record datetime =
  year :: nat
  month :: nat
  day :: nat
  hour :: nat
  minute :: nat
  second :: nat
  microsecond :: nat

fun dec :: "nat \<Rightarrow> pystr" where
  "dec n = (if n < 10 then [48 + n] else dec (n div 10) @ [48 + n mod 10])"

declare dec.simps [simp del]

definition zpad :: "nat \<Rightarrow> nat \<Rightarrow> pystr" where
  "zpad w n = replicate (w - length (dec n)) 48 @ dec n"

definition isoformat :: "datetime \<Rightarrow> pystr" where
  "isoformat d =
     zpad 4 (year d) @ S ''-'' @ zpad 2 (month d) @ S ''-'' @ zpad 2 (day d) @ S ''T'' @
     zpad 2 (hour d) @ S '':'' @ zpad 2 (minute d) @ S '':'' @ zpad 2 (second d) @
     (if microsecond d = 0 then [] else S ''.'' @ zpad 6 (microsecond d))"

section \<open>\<^verbatim>\<open>GET /api/market/overview\<close>\<close>

text \<open>
  The payload's dictionaries have fixed keys and are records here. \<^verbatim>\<open>change24h\<close> is a
  key of both a sector and an asset, and \<^verbatim>\<open>id\<close> and \<^verbatim>\<open>value\<close> are taken in HOL, so the
  asset's and the heat map point's fields carry a prefix. Float literals are the decimal
  fractions the source writes.
\<close>

record Asset =
  symbol :: pystr
  asset_change24h :: rat
  marketCap :: int

record Sector =
  name :: pystr
  change24h :: rat
  volume :: int
  assets :: "Asset list"

record HeatmapPoint =
  point_id :: pystr
  point_value :: rat

record MarketOverview =
  updatedAt :: pystr
  sectors :: "Sector list"
  heatmap :: "HeatmapPoint list"

definition overview_sectors :: "Sector list" where
  "overview_sectors =
     [\<lparr>name = S ''Layer 1s'', change24h = 24 / 10, volume = 18200000000,
       assets =
         [\<lparr>symbol = S ''BTC'', asset_change24h = 12 / 10, marketCap = 1250000000000\<rparr>,
          \<lparr>symbol = S ''ETH'', asset_change24h = 29 / 10, marketCap = 450000000000\<rparr>]\<rparr>,
      \<lparr>name = S ''DeFi'', change24h = - (11 / 10), volume = 4800000000,
       assets =
         [\<lparr>symbol = S ''UNI'', asset_change24h = - (8 / 10), marketCap = 8900000000\<rparr>,
          \<lparr>symbol = S ''AAVE'', asset_change24h = - (21 / 10), marketCap = 1500000000\<rparr>]\<rparr>,
      \<lparr>name = S ''NFT / Gaming'', change24h = 6 / 10, volume = 980000000,
       assets =
         [\<lparr>symbol = S ''IMX'', asset_change24h = 18 / 10, marketCap = 3400000000\<rparr>,
          \<lparr>symbol = S ''APE'', asset_change24h = - (3 / 10), marketCap = 650000000\<rparr>]\<rparr>]"

definition overview_heatmap :: "HeatmapPoint list" where
  "overview_heatmap =
     [\<lparr>point_id = S ''BTC'', point_value = 12 / 10\<rparr>,
      \<lparr>point_id = S ''ETH'', point_value = 29 / 10\<rparr>,
      \<lparr>point_id = S ''SOL'', point_value = 38 / 10\<rparr>,
      \<lparr>point_id = S ''BNB'', point_value = - (7 / 10)\<rparr>,
      \<lparr>point_id = S ''ARB'', point_value = 11 / 10\<rparr>,
      \<lparr>point_id = S ''OP'', point_value = 5 / 10\<rparr>]"

definition market_overview :: "datetime \<Rightarrow> MarketOverview" where
  "market_overview utcnow =
     (let now = isoformat utcnow @ S ''Z''
      in \<lparr>updatedAt = now, sectors = overview_sectors, heatmap = overview_heatmap\<rparr>)"

section \<open>\<^verbatim>\<open>GET /api/reports\<close>\<close>

record ReportSummary =
  report_id :: pystr
  title :: pystr
  period :: pystr
  createdAt :: pystr

record Reports =
  items :: "ReportSummary list"

text \<open>The handler reads the clock twice, once for each item.\<close>

definition list_reports :: "datetime \<Rightarrow> datetime \<Rightarrow> Reports" where
  "list_reports utcnow1 utcnow2 =
     \<lparr>items =
        [\<lparr>report_id = S ''weekly-crypto-outlook'',
          title = S ''Weekly Crypto Outlook'',
          period = S ''Week 46'',
          createdAt = isoformat utcnow1 @ S ''Z''\<rparr>,
         \<lparr>report_id = S ''macro-brief'',
          title = S ''Macro Brief: Rates + Liquidity'',
          period = S ''This Week'',
          createdAt = isoformat utcnow2 @ S ''Z''\<rparr>]\<rparr>"

section \<open>\<^verbatim>\<open>GET /test\<close>\<close>

text \<open>
  What the probe can meet. A raised object is kept as the class the handler's
  \<^verbatim>\<open>except\<close> clauses tell apart and the text \<^verbatim>\<open>str(e)\<close>: \<open>ImportError\<close> (with its
  subclasses), \<open>AttributeError\<close> (which \<^verbatim>\<open>hasattr\<close> absorbs), \<open>OtherException\<close> for every
  other instance of \<^verbatim>\<open>Exception\<close>, and \<open>NonException\<close> for an instance of
  \<^verbatim>\<open>BaseException\<close> that is no \<^verbatim>\<open>Exception\<close> (\<^verbatim>\<open>SystemExit\<close>, \<^verbatim>\<open>KeyboardInterrupt\<close>,
  \<^verbatim>\<open>GeneratorExit\<close>).
\<close>

datatype exc_class = ImportError | AttributeError | OtherException | NonException

datatype py_exception = Raised (exc_class: exc_class) (exc_str: pystr)

definition is_Exception :: "py_exception \<Rightarrow> bool" where
  "is_Exception e = (case exc_class e of NonException \<Rightarrow> False | _ \<Rightarrow> True)"

text \<open>
  The database handle is the external collaborator: evaluating \<^verbatim>\<open>db.name\<close> and calling
  \<^verbatim>\<open>db.list_collection_names()\<close> each either give a value or raise.
\<close>

record db_handle =
  db_name :: "py_exception + pystr"
  list_collection_names :: "py_exception + pystr list"

text \<open>
  \<^verbatim>\<open>hasattr(db, 'name')\<close> evaluates the attribute: false on \<^verbatim>\<open>AttributeError\<close>, and any
  other raised object passes through.
\<close>

definition hasattr_name :: "db_handle \<Rightarrow> py_exception + bool" where
  "hasattr_name db =
     (case db_name db of
        Inr _ \<Rightarrow> Inr True
      | Inl e \<Rightarrow> (case exc_class e of AttributeError \<Rightarrow> Inr False | _ \<Rightarrow> Inl e))"

record test_response =
  backend :: pystr
  database :: pystr
  database_url :: "pystr option"
  database_name :: "pystr option"
  connection_status :: pystr
  collections :: "pystr list"

definition initial_response :: test_response where
  "initial_response =
     \<lparr>backend = check_mark @ S '' Running'',
      database = cross_mark @ S '' Not Available'',
      database_url = None,
      database_name = None,
      connection_status = S ''Not Connected'',
      collections = []\<rparr>"

text \<open>
  The inner \<^verbatim>\<open>try\<close> with its \<^verbatim>\<open>except Exception\<close>. The dictionary \<^verbatim>\<open>response\<close> is mutated
  in place, so each step returns it together with the object that is still being raised,
  if any.
\<close>

definition list_collections :: "db_handle \<Rightarrow> test_response \<Rightarrow> py_exception option \<times> test_response" where
  "list_collections db r =
     (case list_collection_names db of
        Inr cols \<Rightarrow>
          (None, r\<lparr>collections := take 10 cols,
                   database := check_mark @ S '' Connected & Working''\<rparr>)
      | Inl e \<Rightarrow>
          if is_Exception e
          then (None, r\<lparr>database := warning_sign @ S ''  Connected but Error: '' @ take 50 (exc_str e)\<rparr>)
          else (Some e, r))"

text \<open>
  The body of the outer \<^verbatim>\<open>try\<close>. Its first argument is the outcome of
  \<^verbatim>\<open>from database import db\<close>: a raised object, \<^verbatim>\<open>None\<close> or a handle.
\<close>

definition try_body :: "py_exception + db_handle option \<Rightarrow> test_response \<Rightarrow> py_exception option \<times> test_response" where
  "try_body imported r =
     (case imported of
        Inl e \<Rightarrow> (Some e, r)
      | Inr None \<Rightarrow> (None, r\<lparr>database := warning_sign @ S ''  Available but not initialized''\<rparr>)
      | Inr (Some db) \<Rightarrow>
          (let r1 = r\<lparr>database := check_mark @ S '' Available'',
                      database_url := Some (check_mark @ S '' Configured'')\<rparr>
           in case hasattr_name db of
                Inl e \<Rightarrow> (Some e, r1)
              | Inr has \<Rightarrow>
                  (case (if has then db_name db else Inr (check_mark @ S '' Connected'')) of
                     Inl e \<Rightarrow> (Some e, r1)
                   | Inr v \<Rightarrow>
                       list_collections db
                         (r1\<lparr>database_name := Some v, connection_status := S ''Connected''\<rparr>))))"

text \<open>
  \<^verbatim>\<open>os.getenv\<close> on the process environment, and the truth value of its result: \<^verbatim>\<open>None\<close>
  and the empty string are false.
\<close>

definition getenv :: "(pystr \<times> pystr) list \<Rightarrow> pystr \<Rightarrow> pystr option" where
  "getenv env k = map_of env k"

definition truthy :: "pystr option \<Rightarrow> bool" where
  "truthy v = (case v of None \<Rightarrow> False | Some s \<Rightarrow> (case s of [] \<Rightarrow> False | _ \<Rightarrow> True))"

definition set_or_not :: "pystr option \<Rightarrow> pystr" where
  "set_or_not v = (if truthy v then check_mark @ S '' Set'' else cross_mark @ S '' Not Set'')"

text \<open>
  The two \<^verbatim>\<open>except\<close> clauses of the outer \<^verbatim>\<open>try\<close>, tried in the source's order:
  \<^verbatim>\<open>ImportError\<close> first, then \<^verbatim>\<open>Exception\<close>. \<open>Inl\<close> is a raised object that
  neither clause takes.
\<close>

definition except_clauses :: "py_exception option \<times> test_response \<Rightarrow> py_exception + test_response" where
  "except_clauses outcome =
     (case outcome of
        (None, r) \<Rightarrow> Inr r
      | (Some e, r) \<Rightarrow>
          (case exc_class e of
             ImportError \<Rightarrow>
               Inr (r\<lparr>database :=
                 cross_mark @ S '' Database module not found (run enable-database first)''\<rparr>)
           | NonException \<Rightarrow> Inl e
           | _ \<Rightarrow> Inr (r\<lparr>database := cross_mark @ S '' Error: '' @ take 50 (exc_str e)\<rparr>)))"

text \<open>The two assignments after the \<^verbatim>\<open>try\<close> statement.\<close>

definition report_environment :: "(pystr \<times> pystr) list \<Rightarrow> test_response \<Rightarrow> test_response" where
  "report_environment env r =
     r\<lparr>database_url := Some (set_or_not (getenv env (S ''DATABASE_URL''))),
       database_name := Some (set_or_not (getenv env (S ''DATABASE_NAME'')))\<rparr>"

text \<open>
  The handler. \<open>Inl\<close> is a raised object that leaves the handler; \<open>Inr\<close> is the
  returned dictionary.
\<close>

definition test_database :: "py_exception + db_handle option \<Rightarrow> (pystr \<times> pystr) list \<Rightarrow> py_exception + test_response" where
  "test_database imported env =
     (case except_clauses (try_body imported initial_response) of
        Inl e \<Rightarrow> Inl e
      | Inr r \<Rightarrow> Inr (report_environment env r))"


section \<open>The world\<close>

text \<open>
  What code that runs in the process can read beside its arguments: the clock (the
  readings of \<^verbatim>\<open>datetime.utcnow()\<close> in the order they are taken), the process environment
  and the outcome of importing the database module.
\<close>

record world =
  utcnow :: "nat \<Rightarrow> datetime"
  environ :: "(pystr \<times> pystr) list"
  database_import :: "py_exception + db_handle option"

text \<open>Two worlds for the examples; they differ in every component.\<close>

definition world_a :: world where
  "world_a =
     \<lparr>utcnow = (\<lambda>k. \<lparr>year = 2026, month = 11, day = 4, hour = 9, minute = 5, second = 7,
                        microsecond = 0\<rparr>),
      environ = [],
      database_import = Inl (Raised ImportError (S ''No module named database''))\<rparr>"

definition world_b :: world where
  "world_b =
     \<lparr>utcnow = (\<lambda>k. \<lparr>year = 2027, month = 1, day = 2, hour = 3, minute = 4, second = 5,
                        microsecond = 6\<rparr>),
      environ = [(S ''DATABASE_URL'', S ''mongodb://db'')],
      database_import =
        Inr (Some \<lparr>db_name = Inl (Raised AttributeError (S ''no attribute name'')),
                   list_collection_names = Inr [S ''users'']\<rparr>)\<rparr>"

section \<open>\<^verbatim>\<open>POST /api/explain\<close>\<close>

text \<open>
  \<^verbatim>\<open>ExplainRequest\<close> and \<^verbatim>\<open>ExplainResponse\<close>, the two pydantic models. The request's
  fields carry the prefix of the handler's parameter \<^verbatim>\<open>req\<close>, since both models have a
  field \<^verbatim>\<open>mode\<close>. The float literal \<^verbatim>\<open>0.72\<close> is kept as the decimal fraction the source
  writes; the handler does no arithmetic on it.
\<close>

record ExplainRequest =
  req_query :: pystr
  req_mode :: pystr

record ExplainResponse =
  mode :: pystr
  summary :: pystr
  key_points :: "pystr list"
  confidence :: rat
  sources :: "pystr list"

text \<open>
  Building the request from a body: \<^verbatim>\<open>query\<close> is required, and \<^verbatim>\<open>mode\<close> has the default
  \<^verbatim>\<open>"expert"\<close> when the body omits it.
\<close>

definition new_ExplainRequest :: "pystr \<Rightarrow> pystr option \<Rightarrow> ExplainRequest" where
  "new_ExplainRequest q m =
     \<lparr>req_query = q, req_mode = (case m of None \<Rightarrow> S ''expert'' | Some v \<Rightarrow> v)\<rparr>"

datatype http_exception = HTTPException (status_code: nat) (detail: pystr)

definition points :: "pystr list" where
  "points =
     [S ''Price action concentrated around key liquidity zones'',
      S ''Funding rates normalizing after recent spikes'',
      S ''Net exchange outflows suggest accumulation'',
      S ''Derivatives skew implies moderate upside bias'']"

text \<open>The style label the handler selects from \<^verbatim>\<open>req.mode\<close>.\<close>

definition style :: "(pystr \<Rightarrow> pystr) \<Rightarrow> ExplainRequest \<Rightarrow> pystr" where
  "style ulower req =
     (if lower ulower (req_mode req) = S ''beginner'' then S ''Beginner'' else S ''Expert'')"

text \<open>
  The handler. Like all code of the process it runs in the world \<open>w\<close>, which the embedding
  hands to it; the source's body makes no call to the clock, the environment or the
  database module, and so none of \<open>w\<close> occurs in the result.
\<close>

definition explain :: "(pystr \<Rightarrow> pystr) \<Rightarrow> world \<Rightarrow> ExplainRequest \<Rightarrow> http_exception + ExplainResponse" where
  "explain ulower w req =
     (if req_query req = [] \<or> length (strip (req_query req)) < 3
      then Inl (HTTPException 400 (S ''Query is too short''))
      else Inr
        \<lparr>mode = lower ulower (style ulower req),
         summary =
           style ulower req @ S '' view: '' @ strip (req_query req) @
           S '' likely driven by liquidity rotation, macro risk appetite, and exchange flow dynamics.'',
         key_points = points,
         confidence = 72 / 100,
         sources =
           [S ''CeFi spot feeds'',
            S ''On-chain exchange flows'',
            S ''Derivatives funding + OI'']\<rparr>)"

text \<open>
  The status of the HTTP answer: a handler that returns is answered with 200, a raised
  \<^verbatim>\<open>HTTPException\<close> with its own status code.
\<close>

definition http_status :: "http_exception + 'a \<Rightarrow> nat" where
  "http_status r = (case r of Inl e \<Rightarrow> status_code e | Inr _ \<Rightarrow> 200)"

text \<open>
  Two strings are equal up to case when their lowercasings are equal: the reading of
  "case-insensitively equals" that the statements about \<^verbatim>\<open>mode\<close> use.
\<close>

definition eq_ignore_case :: "(pystr \<Rightarrow> pystr) \<Rightarrow> pystr \<Rightarrow> pystr \<Rightarrow> bool" where
  "eq_ignore_case ulower a b = (lower ulower a = lower ulower b)"

section \<open>The application\<close>

text \<open>
  The routes of \<^verbatim>\<open>app\<close>. A handler that returns is answered with status 200 and the
  returned value as body, a raised \<^verbatim>\<open>HTTPException\<close> with its status code and its
  detail; \<open>Unhandled\<close> is a raised object that leaves the handler.
\<close>

datatype request =
  GET_root
  | GET_api_hello
  | GET_test
  | GET_api_market_overview
  | POST_api_explain ExplainRequest
  | GET_api_reports

datatype body =
  Dict "(pystr \<times> pystr) list"
  | Diagnostics test_response
  | Overview MarketOverview
  | Explanation ExplainResponse
  | Report_list Reports
  | Detail pystr

datatype reply = Reply (status: nat) (content: body) | Unhandled py_exception

definition read_root :: "(pystr \<times> pystr) list" where
  "read_root = [(S ''service'', S ''GlassWindow Backend''), (S ''status'', S ''ok'')]"

definition hello :: "(pystr \<times> pystr) list" where
  "hello = [(S ''message'', S ''Hello from the backend API!'')]"

definition app :: "(pystr \<Rightarrow> pystr) \<Rightarrow> world \<Rightarrow> request \<Rightarrow> reply" where
  "app ulower w rq =
     (case rq of
        GET_root \<Rightarrow> Reply 200 (Dict read_root)
      | GET_api_hello \<Rightarrow> Reply 200 (Dict hello)
      | GET_test \<Rightarrow>
          (case test_database (database_import w) (environ w) of
             Inl e \<Rightarrow> Unhandled e
           | Inr r \<Rightarrow> Reply 200 (Diagnostics r))
      | GET_api_market_overview \<Rightarrow> Reply 200 (Overview (market_overview (utcnow w 0)))
      | POST_api_explain req \<Rightarrow>
          (case explain ulower w req of
             Inl e \<Rightarrow> Reply (status_code e) (Detail (detail e))
           | Inr r \<Rightarrow> Reply 200 (Explanation r))
      | GET_api_reports \<Rightarrow> Reply 200 (Report_list (list_reports (utcnow w 0) (utcnow w 1))))"

section \<open>Properties of \<^verbatim>\<open>POST /api/explain\<close>\<close>

lemma lower_Beginner: "lower ulower (S ''Beginner'') = S ''beginner''"
  by (simp add: lower_def S_def ascii_lower_def)

lemma lower_Expert: "lower ulower (S ''Expert'') = S ''expert''"
  by (simp add: lower_def S_def ascii_lower_def)

lemma lower_beginner: "lower ulower (S ''beginner'') = S ''beginner''"
  by (simp add: lower_def S_def ascii_lower_def)

lemma lower_expert: "lower ulower (S ''expert'') = S ''expert''"
  by (simp add: lower_def S_def ascii_lower_def)

lemma expert_neq_beginner: "S ''expert'' \<noteq> S ''beginner''"
  by (simp add: S_def)

lemma strip_short_of_empty: "q = [] \<Longrightarrow> length (strip q) < 3"
  by (simp add: strip_def)

text \<open>
  C1. A request whose query, once stripped, is shorter than three code points (the empty
  and the all-white-space query among them) is refused: the handler raises the
  \<^verbatim>\<open>HTTPException\<close> with status 400 and detail "Query is too short", and so produces no
  response record.
\<close>

theorem explain_short_query_400:
  assumes "length (strip (req_query req)) < 3"
  shows "explain ulower w req = Inl (HTTPException 400 (S ''Query is too short''))
    \<and> http_status (explain ulower w req) = 400
    \<and> (\<forall>resp. explain ulower w req \<noteq> Inr resp)"
  using assms by (simp add: explain_def http_status_def)

theorem explain_short_query_400_witness:
  "length (strip (req_query \<lparr>req_query = S ''  hi  '', req_mode = S ''expert''\<rparr>)) < 3
   \<and> explain id world_a \<lparr>req_query = S ''  hi  '', req_mode = S ''expert''\<rparr>
       = Inl (HTTPException 400 (S ''Query is too short''))
   \<and> explain id world_a \<lparr>req_query = [], req_mode = S ''expert''\<rparr>
       = Inl (HTTPException 400 (S ''Query is too short''))
   \<and> explain id world_a \<lparr>req_query = S ''   '', req_mode = S ''expert''\<rparr>
       = Inl (HTTPException 400 (S ''Query is too short''))"
proof -
  have h1: "length (strip (req_query \<lparr>req_query = S ''  hi  '', req_mode = S ''expert''\<rparr>)) < 3"
    by (simp add: strip_def S_def isspace_def)
  have h2: "length (strip (req_query \<lparr>req_query = [], req_mode = S ''expert''\<rparr>)) < 3"
    by (simp add: strip_def)
  have h3: "length (strip (req_query \<lparr>req_query = S ''   '', req_mode = S ''expert''\<rparr>)) < 3"
    by (simp add: strip_def S_def isspace_def)
  show ?thesis
    using h1 explain_short_query_400 [OF h1, of id world_a] explain_short_query_400 [OF h2, of id world_a]
      explain_short_query_400 [OF h3, of id world_a]
    by blast
qed

lemma strip_Nil: "strip [] = []"
  by (simp add: strip_def)

lemma explain_accepts:
  assumes "3 \<le> length (strip (req_query req))"
  shows "explain ulower w req =
    Inr \<lparr>mode = lower ulower (style ulower req),
         summary =
           style ulower req @ S '' view: '' @ strip (req_query req) @
           S '' likely driven by liquidity rotation, macro risk appetite, and exchange flow dynamics.'',
         key_points = points,
         confidence = 72 / 100,
         sources =
           [S ''CeFi spot feeds'',
            S ''On-chain exchange flows'',
            S ''Derivatives funding + OI'']\<rparr>"
proof -
  from assms have "req_query req \<noteq> []"
    by (auto simp: strip_Nil)
  with assms show ?thesis
    by (simp add: explain_def)
qed

lemma explain_Inr_long:
  assumes "explain ulower w req = Inr resp"
  shows "3 \<le> length (strip (req_query req))"
  using assms by (simp add: explain_def split: if_splits)

lemma style_cases:
  "style ulower req =
     (if eq_ignore_case ulower (req_mode req) (S ''beginner'') then S ''Beginner'' else S ''Expert'')"
  by (simp add: style_def eq_ignore_case_def lower_beginner)

lemma lower_style:
  "lower ulower (style ulower req) =
     (if eq_ignore_case ulower (req_mode req) (S ''beginner'') then S ''beginner'' else S ''expert'')"
  by (simp add: style_cases lower_Beginner lower_Expert)

text \<open>
  C2. A request whose stripped query has at least three code points is answered with
  status 200; the response has confidence 0.72, exactly four key points and exactly three
  sources, whatever the query and the mode are.
\<close>

theorem explain_long_query_200:
  assumes "3 \<le> length (strip (req_query req))"
  shows "\<exists>resp. explain ulower w req = Inr resp
    \<and> http_status (explain ulower w req) = 200
    \<and> confidence resp = 72 / 100
    \<and> length (key_points resp) = 4
    \<and> length (sources resp) = 3"
  by (simp add: explain_accepts [OF assms] http_status_def points_def)

theorem explain_long_query_200_witness:
  "3 \<le> length (strip (req_query \<lparr>req_query = S '' BTC dip '', req_mode = S ''anything''\<rparr>))
   \<and> (\<exists>resp. explain id world_a \<lparr>req_query = S '' BTC dip '', req_mode = S ''anything''\<rparr> = Inr resp
        \<and> http_status (explain id world_a \<lparr>req_query = S '' BTC dip '', req_mode = S ''anything''\<rparr>) = 200
        \<and> confidence resp = 72 / 100
        \<and> length (key_points resp) = 4
        \<and> length (sources resp) = 3)"
proof -
  have h: "3 \<le> length (strip (req_query \<lparr>req_query = S '' BTC dip '', req_mode = S ''anything''\<rparr>))"
    by (simp add: strip_def S_def isspace_def)
  show ?thesis
    using h explain_long_query_200 [OF h, of id world_a] by blast
qed

text \<open>
  On a mode of ASCII code points, equality with "beginner" up to case is what one expects:
  the mode has the eight letters of "beginner", each in either case.
\<close>

lemma ascii_lower_eq_small:
  assumes "97 \<le> d" and "d \<le> 122"
  shows "ascii_lower c = d \<longleftrightarrow> c = d \<or> c + 32 = d"
  using assms by (auto simp: ascii_lower_def)

lemma eq_ignore_case_beginner_ascii:
  assumes "list_all (\<lambda>c. c < 128) m"
  shows "eq_ignore_case ulower m (S ''beginner'')
    \<longleftrightarrow> list_all2 (\<lambda>c d. c = d \<or> c + 32 = d) m (S ''beginner'')"
proof -
  have small: "97 \<le> d \<and> d \<le> 122" if "d \<in> set (S ''beginner'')" for d
    using that by (auto simp: S_def)
  have "eq_ignore_case ulower m (S ''beginner'') \<longleftrightarrow> map ascii_lower m = S ''beginner''"
    using assms by (simp add: eq_ignore_case_def lower_beginner) (simp add: lower_def)
  also have "\<dots> \<longleftrightarrow> list_all2 (\<lambda>c d. ascii_lower c = d) m (S ''beginner'')"
    by (simp add: list_all2_map1 list.rel_eq [symmetric] del: list.rel_eq)
  also have "\<dots> \<longleftrightarrow> list_all2 (\<lambda>c d. c = d \<or> c + 32 = d) m (S ''beginner'')"
  proof
    assume "list_all2 (\<lambda>c d. ascii_lower c = d) m (S ''beginner'')"
    then show "list_all2 (\<lambda>c d. c = d \<or> c + 32 = d) m (S ''beginner'')"
      by (rule list.rel_mono_strong) (use small ascii_lower_eq_small in blast)
  next
    assume "list_all2 (\<lambda>c d. c = d \<or> c + 32 = d) m (S ''beginner'')"
    then show "list_all2 (\<lambda>c d. ascii_lower c = d) m (S ''beginner'')"
      by (rule list.rel_mono_strong) (use small ascii_lower_eq_small in blast)
  qed
  finally show ?thesis .
qed

text \<open>
  C3. In a successful response the field \<^verbatim>\<open>mode\<close> is "beginner" exactly when the
  request's mode equals "beginner" up to case, and it is "expert" for every other mode;
  a request that omits the mode gets the default "expert" and so the response mode
  "expert".
\<close>

theorem explain_mode:
  assumes "explain ulower w req = Inr resp"
  shows "(mode resp = S ''beginner'' \<longleftrightarrow> eq_ignore_case ulower (req_mode req) (S ''beginner''))
    \<and> (\<not> eq_ignore_case ulower (req_mode req) (S ''beginner'') \<longrightarrow> mode resp = S ''expert'')
    \<and> (\<forall>q r. explain ulower w (new_ExplainRequest q None) = Inr r \<longrightarrow> mode r = S ''expert'')"
proof -
  have m: "mode r = lower ulower (style ulower rq)" if "explain ulower w rq = Inr r" for rq r
    using that explain_accepts [OF explain_Inr_long [OF that], of ulower w] by auto
  have d: "\<not> eq_ignore_case ulower (req_mode (new_ExplainRequest q None)) (S ''beginner'')" for q
    by (simp add: new_ExplainRequest_def eq_ignore_case_def lower_expert lower_beginner
        expert_neq_beginner)
  show ?thesis
    using m [OF assms] m d expert_neq_beginner by (simp add: lower_style)
qed

theorem explain_mode_witness:
  "explain id world_a \<lparr>req_query = S ''BTC dip'', req_mode = S ''BeGiNnEr''\<rparr>
     = Inr (projr (explain id world_a \<lparr>req_query = S ''BTC dip'', req_mode = S ''BeGiNnEr''\<rparr>))
   \<and> eq_ignore_case id (S ''BeGiNnEr'') (S ''beginner'')
   \<and> mode (projr (explain id world_a \<lparr>req_query = S ''BTC dip'', req_mode = S ''BeGiNnEr''\<rparr>))
       = S ''beginner''
   \<and> \<not> eq_ignore_case id (S ''novice'') (S ''beginner'')
   \<and> mode (projr (explain id world_a \<lparr>req_query = S ''BTC dip'', req_mode = S ''novice''\<rparr>))
       = S ''expert''
   \<and> mode (projr (explain id world_a (new_ExplainRequest (S ''BTC dip'') None))) = S ''expert''"
proof -
  have l: "3 \<le> length (strip (S ''BTC dip''))"
    by (simp add: strip_def S_def isspace_def)
  have h1: "explain id world_a \<lparr>req_query = S ''BTC dip'', req_mode = S ''BeGiNnEr''\<rparr>
     = Inr (projr (explain id world_a \<lparr>req_query = S ''BTC dip'', req_mode = S ''BeGiNnEr''\<rparr>))"
    using l by (simp add: explain_accepts)
  have h2: "explain id world_a \<lparr>req_query = S ''BTC dip'', req_mode = S ''novice''\<rparr>
     = Inr (projr (explain id world_a \<lparr>req_query = S ''BTC dip'', req_mode = S ''novice''\<rparr>))"
    using l by (simp add: explain_accepts)
  have h3: "explain id world_a (new_ExplainRequest (S ''BTC dip'') None)
     = Inr (projr (explain id world_a (new_ExplainRequest (S ''BTC dip'') None)))"
    using l by (simp add: explain_accepts new_ExplainRequest_def)
  have e1: "eq_ignore_case id (S ''BeGiNnEr'') (S ''beginner'')"
    by (simp add: eq_ignore_case_def lower_def S_def ascii_lower_def)
  have e2: "\<not> eq_ignore_case id (S ''novice'') (S ''beginner'')"
    by (simp add: eq_ignore_case_def lower_def S_def ascii_lower_def)
  show ?thesis
    using h1 e1 e2 explain_mode [OF h1] explain_mode [OF h2] h3 by simp
qed

text \<open>
  C4. In a successful response the summary is the fixed sentence with the style label
  ("Beginner" when the mode equals "beginner" up to case, "Expert" otherwise) and the
  stripped query put in; for the query "BTC dip" and the mode "beginner" it starts with
  "Beginner view: BTC dip likely driven by".
\<close>

theorem explain_summary:
  assumes "explain ulower w req = Inr resp"
  shows "summary resp =
      (if eq_ignore_case ulower (req_mode req) (S ''beginner'') then S ''Beginner'' else S ''Expert'')
      @ S '' view: '' @ strip (req_query req)
      @ S '' likely driven by liquidity rotation, macro risk appetite, and exchange flow dynamics.''
    \<and> (\<exists>r. explain ulower w (new_ExplainRequest (S ''BTC dip'') (Some (S ''beginner''))) = Inr r
          \<and> take 39 (summary r) = S ''Beginner view: BTC dip likely driven by'')"
proof -
  have "summary resp = style ulower req @ S '' view: '' @ strip (req_query req)
      @ S '' likely driven by liquidity rotation, macro risk appetite, and exchange flow dynamics.''"
    using assms explain_accepts [OF explain_Inr_long [OF assms], of ulower w] by auto
  then have a: "summary resp =
      (if eq_ignore_case ulower (req_mode req) (S ''beginner'') then S ''Beginner'' else S ''Expert'')
      @ S '' view: '' @ strip (req_query req)
      @ S '' likely driven by liquidity rotation, macro risk appetite, and exchange flow dynamics.''"
    by (simp only: style_cases)
  have s: "strip (S ''BTC dip'') = S ''BTC dip''"
    by (simp add: strip_def S_def isspace_def)
  have l: "3 \<le> length (strip (req_query (new_ExplainRequest (S ''BTC dip'') (Some (S ''beginner'')))))"
    by (simp add: new_ExplainRequest_def s) (simp add: S_def)
  have st: "style ulower (new_ExplainRequest (S ''BTC dip'') (Some (S ''beginner''))) = S ''Beginner''"
    by (simp add: style_def new_ExplainRequest_def lower_beginner)
  have b: "\<exists>r. explain ulower w (new_ExplainRequest (S ''BTC dip'') (Some (S ''beginner''))) = Inr r
          \<and> take 39 (summary r) = S ''Beginner view: BTC dip likely driven by''"
    by (simp add: explain_accepts [OF l] st) (simp add: new_ExplainRequest_def s, simp add: S_def)
  from a b show ?thesis by blast
qed

theorem explain_summary_witness:
  "explain id world_a \<lparr>req_query = S '' ETH pump '', req_mode = S ''EXPERT''\<rparr>
     = Inr (projr (explain id world_a \<lparr>req_query = S '' ETH pump '', req_mode = S ''EXPERT''\<rparr>))
   \<and> summary (projr (explain id world_a \<lparr>req_query = S '' ETH pump '', req_mode = S ''EXPERT''\<rparr>))
     = S ''Expert view: ETH pump likely driven by liquidity rotation, macro risk appetite, and exchange flow dynamics.''"
proof -
  have s: "strip (S '' ETH pump '') = S ''ETH pump''"
    by (simp add: strip_def S_def isspace_def)
  have l: "3 \<le> length (strip (req_query \<lparr>req_query = S '' ETH pump '', req_mode = S ''EXPERT''\<rparr>))"
    by (simp add: s) (simp add: S_def)
  have h: "explain id world_a \<lparr>req_query = S '' ETH pump '', req_mode = S ''EXPERT''\<rparr>
     = Inr (projr (explain id world_a \<lparr>req_query = S '' ETH pump '', req_mode = S ''EXPERT''\<rparr>))"
    by (simp add: explain_accepts [OF l])
  have e: "\<not> eq_ignore_case id (S ''EXPERT'') (S ''beginner'')"
    by (simp add: eq_ignore_case_def lower_def S_def ascii_lower_def)
  have "summary (projr (explain id world_a \<lparr>req_query = S '' ETH pump '', req_mode = S ''EXPERT''\<rparr>))
     = S ''Expert'' @ S '' view: '' @ S ''ETH pump''
       @ S '' likely driven by liquidity rotation, macro risk appetite, and exchange flow dynamics.''"
    using explain_summary [OF h] e by (simp add: s)
  then show ?thesis
    using h by (simp add: S_def)
qed

section \<open>Properties of \<^verbatim>\<open>GET /test\<close>\<close>



lemma collections_report_environment: "collections (report_environment env r) = collections r"
  by (simp add: report_environment_def)

lemma except_clauses_None: "except_clauses (None, r) = Inr r"
  by (simp add: except_clauses_def)

lemma except_clauses_Some:
  "is_Exception e \<Longrightarrow>
   except_clauses (Some e, r) =
     Inr (r\<lparr>database :=
       (if exc_class e = ImportError
        then cross_mark @ S '' Database module not found (run enable-database first)''
        else cross_mark @ S '' Error: '' @ take 50 (exc_str e))\<rparr>)"
  by (cases "exc_class e") (simp_all add: except_clauses_def is_Exception_def)

lemma except_clauses_NonException:
  "\<not> is_Exception e \<Longrightarrow> except_clauses (Some e, r) = Inl e"
  by (cases "exc_class e") (simp_all add: except_clauses_def is_Exception_def)

lemma try_body_Inl: "try_body (Inl e) r = (Some e, r)"
  by (simp add: try_body_def)

lemma try_body_None:
  "try_body (Inr None) r =
     (None, r\<lparr>database := warning_sign @ S ''  Available but not initialized''\<rparr>)"
  by (simp add: try_body_def)

lemma try_body_hasattr_raises:
  "hasattr_name db = Inl e \<Longrightarrow>
   try_body (Inr (Some db)) r =
     (Some e, r\<lparr>database := check_mark @ S '' Available'',
                 database_url := Some (check_mark @ S '' Configured'')\<rparr>)"
  by (simp add: try_body_def)

lemma try_body_listing:
  "hasattr_name db = Inr b \<Longrightarrow>
   try_body (Inr (Some db)) r =
     list_collections db
       (r\<lparr>database := check_mark @ S '' Available'',
          database_url := Some (check_mark @ S '' Configured''),
          database_name := Some (case db_name db of Inr v \<Rightarrow> v | Inl _ \<Rightarrow> check_mark @ S '' Connected''),
          connection_status := S ''Connected''\<rparr>)"
  by (auto simp: try_body_def hasattr_name_def split: sum.splits exc_class.splits)

lemma list_collections_Inr:
  "list_collection_names db = Inr cols \<Longrightarrow>
   list_collections db r =
     (None, r\<lparr>collections := take 10 cols, database := check_mark @ S '' Connected & Working''\<rparr>)"
  by (simp add: list_collections_def)








lemma collections_initial: "collections initial_response = []"
  by (simp add: initial_response_def)

lemma test_database_raised:
  assumes "test_database imported env = Inr r" and "try_body imported initial_response = (Some e, r0)"
  shows "collections r = collections r0"
proof (cases "is_Exception e")
  case True
  with assms show ?thesis
    by (auto simp: test_database_def except_clauses_Some collections_report_environment)
next
  case False
  with assms show ?thesis
    by (simp add: test_database_def except_clauses_NonException)
qed

lemma test_database_not_raised:
  assumes "test_database imported env = Inr r" and "try_body imported initial_response = (None, r0)"
  shows "collections r = collections r0"
  using assms by (auto simp: test_database_def except_clauses_None collections_report_environment)

lemma collections_list_collections:
  "collections (snd (list_collections db r0)) =
     (case list_collection_names db of Inr cols \<Rightarrow> take 10 cols | Inl _ \<Rightarrow> collections r0)"
  by (simp add: list_collections_def split: sum.splits)

lemma test_database_outcome:
  assumes "test_database imported env = Inr r"
  shows "collections r = collections (snd (try_body imported initial_response))"
proof (cases "try_body imported initial_response")
  case (Pair x r0)
  then show ?thesis
    using assms test_database_raised [OF assms] test_database_not_raised [OF assms]
    by (cases x) simp_all
qed

lemma collections_try_body:
  "collections (snd (try_body imported initial_response)) =
     (case imported of
        Inr (Some db) \<Rightarrow>
          (case hasattr_name db of
             Inr b \<Rightarrow> (case list_collection_names db of Inr cols \<Rightarrow> take 10 cols | Inl _ \<Rightarrow> [])
           | Inl _ \<Rightarrow> [])
      | _ \<Rightarrow> [])"
proof (cases imported)
  case (Inl e)
  then show ?thesis
    by (simp add: try_body_Inl collections_initial)
next
  case (Inr h)
  show ?thesis
  proof (cases h)
    case None
    with Inr show ?thesis
      by (simp add: try_body_None collections_initial)
  next
    case (Some db)
    show ?thesis
    proof (cases "hasattr_name db")
      case (Inl e)
      with Inr Some show ?thesis
        by (simp add: try_body_hasattr_raises collections_initial)
    next
      case has: (Inr b)
      with Inr Some show ?thesis
        by (simp add: try_body_listing [OF has] collections_list_collections collections_initial
            split: sum.splits)
    qed
  qed
qed

lemma test_database_listed:
  assumes "hasattr_name db = Inr b" and "list_collection_names db = Inr cols"
  shows "\<exists>r. test_database (Inr (Some db)) env = Inr r"
  by (simp add: test_database_def try_body_listing [OF assms(1)] list_collections_Inr [OF assms(2)]
      except_clauses_None)

text \<open>
  C8. In every dictionary the handler returns, \<^verbatim>\<open>collections\<close> has at most ten entries.
  When the listing call is made (the handle is there and \<^verbatim>\<open>hasattr\<close> did not raise) and
  returns, the field holds the first ten of the returned names, or all of them when there
  are fewer; in every other outcome it is the empty list.
\<close>

theorem test_database_collections:
  assumes "test_database imported env = Inr r"
  shows "length (collections r) \<le> 10
    \<and> (\<forall>db cols. imported = Inr (Some db) \<and> (\<exists>b. hasattr_name db = Inr b)
          \<and> list_collection_names db = Inr cols \<longrightarrow> collections r = take 10 cols)
    \<and> ((\<nexists>db cols. imported = Inr (Some db) \<and> (\<exists>b. hasattr_name db = Inr b)
          \<and> list_collection_names db = Inr cols) \<longrightarrow> collections r = [])"
proof -
  have c: "collections r =
     (case imported of
        Inr (Some db) \<Rightarrow>
          (case hasattr_name db of
             Inr b \<Rightarrow> (case list_collection_names db of Inr cols \<Rightarrow> take 10 cols | Inl _ \<Rightarrow> [])
           | Inl _ \<Rightarrow> [])
      | _ \<Rightarrow> [])"
    using test_database_outcome [OF assms] by (simp only: collections_try_body)
  show ?thesis
    unfolding c by (auto split: sum.splits option.splits)
qed

theorem test_database_collections_witness:
  "collections (projr (test_database
      (Inr (Some \<lparr>db_name = Inr (S ''app''),
                  list_collection_names =
                    Inr [S ''a'', S ''b'', S ''c'', S ''d'', S ''e'', S ''f'',
                         S ''g'', S ''h'', S ''i'', S ''j'', S ''k'', S ''l'']\<rparr>)) []))
     = [S ''a'', S ''b'', S ''c'', S ''d'', S ''e'', S ''f'', S ''g'', S ''h'', S ''i'', S ''j'']
   \<and> length (collections (projr (test_database (Inr None) []))) \<le> 10"
proof -
  let ?cols = "[S ''a'', S ''b'', S ''c'', S ''d'', S ''e'', S ''f'',
                S ''g'', S ''h'', S ''i'', S ''j'', S ''k'', S ''l'']"
  let ?db = "\<lparr>db_name = Inr (S ''app''), list_collection_names = Inr ?cols\<rparr>"
  have b: "hasattr_name ?db = Inr True"
    by (simp add: hasattr_name_def)
  have l: "list_collection_names ?db = Inr ?cols"
    by simp
  from test_database_listed [OF b l, of "[]"]
  have h: "test_database (Inr (Some ?db)) [] = Inr (projr (test_database (Inr (Some ?db)) []))"
    by auto
  have n: "test_database (Inr None) [] = Inr (projr (test_database (Inr None) []))"
    by (simp add: test_database_def try_body_None except_clauses_None)
  have "collections (projr (test_database (Inr (Some ?db)) [])) = take 10 ?cols"
    using test_database_collections [OF h] b l by blast
  moreover have "take 10 ?cols =
      [S ''a'', S ''b'', S ''c'', S ''d'', S ''e'', S ''f'', S ''g'', S ''h'', S ''i'', S ''j'']"
    by simp
  ultimately show ?thesis
    using test_database_collections [OF n] by simp
qed

text \<open>
  C9, as the code has it. In every dictionary the handler returns, \<^verbatim>\<open>database_url\<close> and
  \<^verbatim>\<open>database_name\<close> depend on the environment alone: "Set" (after the check mark) when
  the variable has a value that is not the empty string, "Not Set" (after the cross mark)
  when it is missing or empty. The values the branch of an available database had put
  there ("Configured", "Connected") are gone, and no outcome of the probe changes the two
  fields.
\<close>

theorem test_database_env_fields:
  assumes "test_database imported env = Inr r"
  shows "database_url r =
      Some (if (\<exists>v. getenv env (S ''DATABASE_URL'') = Some v \<and> v \<noteq> [])
            then check_mark @ S '' Set'' else cross_mark @ S '' Not Set'')
    \<and> database_name r =
      Some (if (\<exists>v. getenv env (S ''DATABASE_NAME'') = Some v \<and> v \<noteq> [])
            then check_mark @ S '' Set'' else cross_mark @ S '' Not Set'')
    \<and> database_url r \<noteq> Some (check_mark @ S '' Configured'')
    \<and> database_name r \<noteq> Some (check_mark @ S '' Connected'')
    \<and> (\<forall>imported' r'. test_database imported' env = Inr r' \<longrightarrow>
          database_url r' = database_url r \<and> database_name r' = database_name r)"
proof -
  have t: "truthy v \<longleftrightarrow> (\<exists>s. v = Some s \<and> s \<noteq> [])" for v
    by (auto simp: truthy_def split: option.splits list.splits)
  have f: "database_url r' = Some (set_or_not (getenv env (S ''DATABASE_URL'')))
      \<and> database_name r' = Some (set_or_not (getenv env (S ''DATABASE_NAME'')))"
    if "test_database imported' env = Inr r'" for imported' r'
    using that by (auto simp: test_database_def report_environment_def split: sum.splits)
  have n: "set_or_not v \<noteq> check_mark @ S '' Configured''
      \<and> set_or_not v \<noteq> check_mark @ S '' Connected''" for v
    by (simp add: set_or_not_def check_mark_def cross_mark_def S_def)
  show ?thesis
    using f [OF assms] f n by (simp add: set_or_not_def t)
qed

theorem test_database_env_fields_witness:
  "test_database
     (Inr (Some \<lparr>db_name = Inr (S ''app''), list_collection_names = Inr [S ''users'']\<rparr>))
     [(S ''DATABASE_URL'', S ''mongodb://db'')]
   = Inr \<lparr>backend = check_mark @ S '' Running'',
          database = check_mark @ S '' Connected & Working'',
          database_url = Some (check_mark @ S '' Set''),
          database_name = Some (cross_mark @ S '' Not Set''),
          connection_status = S ''Connected'',
          collections = [S ''users'']\<rparr>"
proof -
  have h: "test_database
     (Inr (Some \<lparr>db_name = Inr (S ''app''), list_collection_names = Inr [S ''users'']\<rparr>))
     [(S ''DATABASE_URL'', S ''mongodb://db'')]
   = Inr (projr (test_database
     (Inr (Some \<lparr>db_name = Inr (S ''app''), list_collection_names = Inr [S ''users'']\<rparr>))
     [(S ''DATABASE_URL'', S ''mongodb://db'')]))"
    by (simp add: test_database_def try_body_def list_collections_def hasattr_name_def
        except_clauses_def)
  have g: "getenv [(S ''DATABASE_URL'', S ''mongodb://db'')] (S ''DATABASE_URL'') = Some (S ''mongodb://db'')"
      "getenv [(S ''DATABASE_URL'', S ''mongodb://db'')] (S ''DATABASE_NAME'') = None"
    by (simp_all add: getenv_def S_def)
  have u: "database_url (projr (test_database
     (Inr (Some \<lparr>db_name = Inr (S ''app''), list_collection_names = Inr [S ''users'']\<rparr>))
     [(S ''DATABASE_URL'', S ''mongodb://db'')])) = Some (check_mark @ S '' Set'')
    \<and> database_name (projr (test_database
     (Inr (Some \<lparr>db_name = Inr (S ''app''), list_collection_names = Inr [S ''users'']\<rparr>))
     [(S ''DATABASE_URL'', S ''mongodb://db'')])) = Some (cross_mark @ S '' Not Set'')"
    using test_database_env_fields [OF h] by (simp add: g) (simp add: S_def)
  show ?thesis
    using u
    by (simp add: test_database_def try_body_def list_collections_def hasattr_name_def
        except_clauses_def report_environment_def initial_response_def)
qed

text \<open>
  C9 as stated fails on a variable that is set to the empty string: \<^verbatim>\<open>os.getenv\<close> gives
  \<^verbatim>\<open>""\<close>, which is false, and the field reads "Not Set" for a variable that is present.
\<close>

theorem test_database_empty_variable:
  "getenv [(S ''DATABASE_URL'', [])] (S ''DATABASE_URL'') = Some []
   \<and> test_database (Inr None) [(S ''DATABASE_URL'', [])] =
       Inr \<lparr>backend = check_mark @ S '' Running'',
            database = warning_sign @ S ''  Available but not initialized'',
            database_url = Some (cross_mark @ S '' Not Set''),
            database_name = Some (cross_mark @ S '' Not Set''),
            connection_status = S ''Not Connected'',
            collections = []\<rparr>"
  by (simp add: getenv_def test_database_def try_body_def initial_response_def set_or_not_def
      truthy_def except_clauses_def report_environment_def S_def)

section \<open>Properties of \<^verbatim>\<open>GET /api/market/overview\<close> and \<^verbatim>\<open>GET /api/reports\<close>\<close>

text \<open>
  C6. Every answer of \<^verbatim>\<open>GET /api/market/overview\<close> has exactly three sectors with
  exactly two assets each and exactly six heat map points. The payload is the constant
  snapshot but for \<^verbatim>\<open>updatedAt\<close>, which is the reading of the UTC clock in ISO format
  followed by "Z".
\<close>

theorem market_overview_shape:
  "length (sectors (market_overview now)) = 3
   \<and> list_all (\<lambda>s. length (assets s) = 2) (sectors (market_overview now))
   \<and> length (heatmap (market_overview now)) = 6
   \<and> market_overview now =
       \<lparr>updatedAt = isoformat now @ S ''Z'', sectors = overview_sectors, heatmap = overview_heatmap\<rparr>
   \<and> market_overview now = (market_overview now')\<lparr>updatedAt := isoformat now @ S ''Z''\<rparr>
   \<and> app ulower w GET_api_market_overview =
       Reply 200 (Overview \<lparr>updatedAt = isoformat (utcnow w 0) @ S ''Z'',
                            sectors = overview_sectors, heatmap = overview_heatmap\<rparr>)"
  by (simp add: market_overview_def app_def overview_sectors_def overview_heatmap_def)

text \<open>
  C7. Every answer of \<^verbatim>\<open>GET /api/reports\<close> has exactly two items, with the ids
  "weekly-crypto-outlook" and "macro-brief" in this order; the \<^verbatim>\<open>createdAt\<close> of each item
  is its own reading of the UTC clock in ISO format followed by "Z".
\<close>

theorem list_reports_shape:
  "length (items (list_reports t1 t2)) = 2
   \<and> map report_id (items (list_reports t1 t2)) = [S ''weekly-crypto-outlook'', S ''macro-brief'']
   \<and> map createdAt (items (list_reports t1 t2)) = [isoformat t1 @ S ''Z'', isoformat t2 @ S ''Z'']
   \<and> app ulower w GET_api_reports = Reply 200 (Report_list (list_reports (utcnow w 0) (utcnow w 1)))"
  by (simp add: list_reports_def app_def)

section \<open>Determinism of \<^verbatim>\<open>POST /api/explain\<close>\<close>

text \<open>
  The answer of \<^verbatim>\<open>GET /api/market/overview\<close> does depend on the world: two clocks give
  two answers.
\<close>

lemma market_overview_reads_clock:
  "app ulower world_a GET_api_market_overview \<noteq> app ulower world_b GET_api_market_overview"
  by (simp add: app_def market_overview_def world_a_def world_b_def isoformat_def zpad_def
      dec.simps S_def)

text \<open>
  C10. Two requests to \<^verbatim>\<open>POST /api/explain\<close> with equal query and equal mode get equal
  outcomes, the same error or the same response record, in any two worlds: the handler
  reads neither the clock nor the environment nor the database.
\<close>

theorem explain_deterministic:
  assumes "req_query r1 = req_query r2" and "req_mode r1 = req_mode r2"
  shows "explain ulower w1 r1 = explain ulower w2 r2
    \<and> app ulower w1 (POST_api_explain r1) = app ulower w2 (POST_api_explain r2)"
proof -
  have "explain ulower w1 r1 = explain ulower w2 r2"
    using assms by (simp add: explain_def style_def)
  then show ?thesis
    by (simp add: app_def)
qed

theorem explain_deterministic_witness:
  "explain id world_a \<lparr>req_query = S ''BTC dip'', req_mode = S ''beginner''\<rparr>
     = explain id world_b (new_ExplainRequest (S ''BTC dip'') (Some (S ''beginner'')))
   \<and> app id world_a (POST_api_explain \<lparr>req_query = S ''BTC dip'', req_mode = S ''beginner''\<rparr>)
     = app id world_b (POST_api_explain (new_ExplainRequest (S ''BTC dip'') (Some (S ''beginner''))))"
proof -
  have q: "req_query \<lparr>req_query = S ''BTC dip'', req_mode = S ''beginner''\<rparr>
      = req_query (new_ExplainRequest (S ''BTC dip'') (Some (S ''beginner'')))"
    by (simp add: new_ExplainRequest_def)
  have m: "req_mode \<lparr>req_query = S ''BTC dip'', req_mode = S ''beginner''\<rparr>
      = req_mode (new_ExplainRequest (S ''BTC dip'') (Some (S ''beginner'')))"
    by (simp add: new_ExplainRequest_def)
  show ?thesis
    using explain_deterministic [OF q m, of id world_a world_b] by blast
qed

end
